theory Spec2Isabelle
  imports Main
begin

section \<open>Configuration profiles (config/server.py)\<close>

text \<open>
  A configuration class is a bundle of class attributes.  The attributes every class has
  (those of \<open>Config\<close>) are plain fields; the attributes only some subclass adds
  are optional fields, \<open>None\<close> where the class does not have the attribute.
\<close>

record config_class =
  DEBUG :: bool
  TESTING :: bool
  CSRF_ENABLED :: bool
  SECRET_KEY :: string
  SESSION_TYPE :: string
  PERMANENT_SESSION_LIFETIME :: nat
  MAX_CONTENT_LENGTH :: nat
  CSV_FILE_PATH :: string
  CSV_HEADERS :: "string list"
  DEVELOPMENT :: "bool option"
  SESSION_COOKIE_SECURE :: "bool option"
  SESSION_COOKIE_HTTPONLY :: "bool option"
  SESSION_COOKIE_SAMESITE :: "string option"
  WTF_CSRF_ENABLED :: "bool option"

definition Config :: config_class where
  "Config =
     \<lparr> DEBUG = False,
       TESTING = False,
       CSRF_ENABLED = True,
       SECRET_KEY = ''this-should-be-changed-in-production'',
       SESSION_TYPE = ''filesystem'',
       PERMANENT_SESSION_LIFETIME = 3600,
       MAX_CONTENT_LENGTH = 16 * 1024 * 1024,
       CSV_FILE_PATH = ''src/models/data/users.csv'',
       CSV_HEADERS = [''username'', ''email'', ''password'', ''role'', ''created''],
       DEVELOPMENT = None,
       SESSION_COOKIE_SECURE = None,
       SESSION_COOKIE_HTTPONLY = None,
       SESSION_COOKIE_SAMESITE = None,
       WTF_CSRF_ENABLED = None \<rparr>"

text \<open>
  \<open>ProductionConfig\<close>: the conditional expression tests the string literal itself,
  which is not empty, so the attribute is that literal.
\<close>

definition ProductionConfig :: config_class where
  "ProductionConfig =
     Config \<lparr> DEBUG := False,
              SECRET_KEY := ''${SECRET_KEY}'',
              CSV_FILE_PATH := (if ''${CSV_FILE_PATH}'' \<noteq> [] then ''${CSV_FILE_PATH}''
                                else ''src/models/data/users.csv'') \<rparr>"

definition DevelopmentConfig :: config_class where
  "DevelopmentConfig =
     Config \<lparr> DEBUG := True,
              DEVELOPMENT := Some True,
              SESSION_COOKIE_SECURE := Some False,
              SESSION_COOKIE_HTTPONLY := Some True,
              SESSION_COOKIE_SAMESITE := Some ''Lax'' \<rparr>"

definition TestingConfig :: config_class where
  "TestingConfig =
     Config \<lparr> TESTING := True,
              DEBUG := True,
              CSV_FILE_PATH := ''src/models/data/test_users.csv'',
              WTF_CSRF_ENABLED := Some False \<rparr>"

text \<open>The dictionary \<open>config\<close>, in the order of its literal.\<close>

definition config :: "(string \<times> config_class) list" where
  "config =
     [ (''development'', DevelopmentConfig),
       (''testing'', TestingConfig),
       (''production'', ProductionConfig),
       (''default'', DevelopmentConfig) ]"

section \<open>Python values and exceptions\<close>

text \<open>
  The exceptions the modelled code can raise: indexing a dictionary with a key it does
  not have, opening a file for reading that does not exist, calling \<open>get\<close> on a
  value that is not a dictionary (with the name of its type), an HTTP exception that
  \<open>request.json\<close> raises (with its status code), \<open>csv.Error\<close> of the csv reader,
  \<open>TypeError\<close> of \<open>jsonify\<close>, and \<open>UnicodeEncodeError\<close> of a write to a
  file opened with the UTF-8 encoding.
\<close>

datatype exn =
    KeyError string
  | FileNotFoundError string
  | AttributeError string
  | HTTPException nat
  | csv_Error
  | TypeError
  | UnicodeEncodeError

text \<open>
  A value under a key of the parsed JSON request body.  A character of a string stands
  for one character of the Python string.  \<open>JNull\<close> is Python's \<open>None\<close>.
  \<open>JBadStr s\<close> stands for a string that holds a lone surrogate, which UTF-8 cannot
  encode; \<open>s\<close> is that string with a question mark for every surrogate.
  \<open>JOther t s\<close> stands for any value of another type (a float, an array, an
  object): the program only ever tests such a value for truth (\<open>t\<close>), compares it
  with a string read from the file (never equal) and lets the csv writer turn it into
  text (\<open>s\<close>).
\<close>

datatype json = JNull | JBool bool | JInt int | JStr string | JBadStr string | JOther bool string

type_synonym json_object = "string \<rightharpoonup> json"

text \<open>
  What \<open>request.json\<close> gives.  It raises when the body is missing, is not JSON, has
  another content type or is larger than \<open>MAX_CONTENT_LENGTH\<close>.  Otherwise it is the
  parsed value: a dictionary for a JSON object, and for any other body a value that is
  not a dictionary (\<open>None\<close> for \<open>null\<close>, a list, a string, a number, a boolean),
  of which only the name of the type matters.
\<close>

datatype request_json = Raised exn | NotObject string | Object json_object

text \<open>Python's truth value testing, as \<open>not x\<close> uses it.\<close>

fun truthy :: "json \<Rightarrow> bool" where
  "truthy JNull = False"
| "truthy (JBool b) = b"
| "truthy (JInt i) = (i \<noteq> 0)"
| "truthy (JStr s) = (s \<noteq> [])"
| "truthy (JBadStr s) = True"
| "truthy (JOther t s) = t"

text \<open>\<open>d.get(k)\<close> and \<open>d.get(k, default)\<close>.\<close>

definition dict_get :: "json_object \<Rightarrow> string \<Rightarrow> json" where
  "dict_get d k = (case d k of None \<Rightarrow> JNull | Some v \<Rightarrow> v)"

definition dict_get_default :: "json_object \<Rightarrow> string \<Rightarrow> json \<Rightarrow> json" where
  "dict_get_default d k dflt = (case d k of None \<Rightarrow> dflt | Some v \<Rightarrow> v)"

text \<open>\<open>str\<close> of an integer: decimal digits, with a minus sign when negative.\<close>

fun str_nat :: "nat \<Rightarrow> string" where
  "str_nat n =
     (if n < 10 then [''0123456789'' ! n]
      else str_nat (n div 10) @ [''0123456789'' ! (n mod 10)])"

declare str_nat.simps [simp del]

definition str_int :: "int \<Rightarrow> string" where
  "str_int i = (if i < 0 then CHR ''-'' # str_nat (nat (- i)) else str_nat (nat i))"

section \<open>Environment selection (server.py, lines 10 and 11)\<close>

text \<open>\<open>os.getenv(name, default)\<close> on the value the variable has, if any.\<close>

definition getenv :: "string option \<Rightarrow> string \<Rightarrow> string" where
  "getenv var dflt = (case var of None \<Rightarrow> dflt | Some v \<Rightarrow> v)"

definition env :: "string option \<Rightarrow> string" where
  "env FLASK_ENV = getenv FLASK_ENV ''development''"

text \<open>\<open>config[env]\<close>: subscripting raises \<open>KeyError\<close> on a key that is missing.\<close>

definition app_config :: "string option \<Rightarrow> exn + config_class" where
  "app_config FLASK_ENV =
     (case map_of config (env FLASK_ENV) of
        None \<Rightarrow> Inl (KeyError (env FLASK_ENV))
      | Some c \<Rightarrow> Inr c)"

section \<open>Paths (server.py, lines 21 to 23)\<close>

text \<open>
  \<open>os.path.join\<close> on a POSIX system: a component that starts with the separator
  replaces what came before it, otherwise it is appended after one separator.
\<close>

definition join2 :: "string \<Rightarrow> string \<Rightarrow> string" where
  "join2 a b =
     (if b \<noteq> [] \<and> hd b = CHR ''/'' then b
      else if a = [] \<or> last a = CHR ''/'' then a @ b
      else a @ ''/'' @ b)"

definition os_path_join :: "string \<Rightarrow> string list \<Rightarrow> string" where
  "os_path_join a ps = foldl join2 a ps"

text \<open>
  \<open>BASE_DIR\<close> is the directory of the running script, a parameter here.  The path
  of the storage file is computed from it alone: \<open>app_config\<close> is not consulted.
\<close>

definition DATA_DIR :: "string \<Rightarrow> string" where
  "DATA_DIR BASE_DIR = os_path_join BASE_DIR [''src'', ''models'', ''data'']"

definition csv_file_path :: "string \<Rightarrow> string" where
  "csv_file_path BASE_DIR = os_path_join (DATA_DIR BASE_DIR) [''users.csv'']"

section \<open>Files and the csv module\<close>

text \<open>
  A csv file is the list of its rows, each row the list of its fields as text: what
  \<open>csv.writer\<close> adds to the file, one row a call, and what \<open>csv.reader\<close> parses
  from it.  The quoting of the text on disk and failures of the operating system are
  below this level.  The file system maps a path to the file there, and every \<open>open\<close>
  is recorded with its path and mode.
\<close>

type_synonym csv_file = "string list list"

datatype io_event = Open string string

record world =
  files :: "string \<rightharpoonup> csv_file"
  io_log :: "io_event list"

text \<open>\<open>open(path, "r")\<close>: the rows of the file, or \<open>FileNotFoundError\<close>.\<close>

definition open_r :: "string \<Rightarrow> world \<Rightarrow> (exn + csv_file) \<times> world" where
  "open_r path w =
     (let w' = w \<lparr> io_log := io_log w @ [Open path ''r''] \<rparr>
      in case files w path of
           None \<Rightarrow> (Inl (FileNotFoundError path), w')
         | Some rows \<Rightarrow> (Inr rows, w'))"

text \<open>\<open>open(path, "w")\<close> truncates or creates the file; one \<open>writerow\<close> follows.\<close>

definition open_w_writerow :: "string \<Rightarrow> string list \<Rightarrow> world \<Rightarrow> world" where
  "open_w_writerow path row w =
     w \<lparr> files := (files w)(path \<mapsto> [row]),
         io_log := io_log w @ [Open path ''w''] \<rparr>"

text \<open>\<open>open(path, "a")\<close> keeps the file, or creates it empty.\<close>

definition open_a :: "string \<Rightarrow> world \<Rightarrow> world" where
  "open_a path w =
     w \<lparr> files := (files w)(path \<mapsto> (case files w path of None \<Rightarrow> [] | Some rows \<Rightarrow> rows)),
         io_log := io_log w @ [Open path ''a''] \<rparr>"

text \<open>A row written at the end of the file that was opened.\<close>

definition writerow :: "string \<Rightarrow> string list \<Rightarrow> world \<Rightarrow> world" where
  "writerow path row w =
     w \<lparr> files := (files w)(path \<mapsto> (case files w path of None \<Rightarrow> [] | Some rows \<Rightarrow> rows) @ [row]) \<rparr>"

text \<open>
  The text the csv writer makes of a field: nothing for \<open>None\<close>, a string as it is,
  \<open>str\<close> of any other value.
\<close>

fun csv_field :: "json \<Rightarrow> string" where
  "csv_field JNull = []"
| "csv_field (JStr s) = s"
| "csv_field (JBadStr s) = s"
| "csv_field (JBool b) = (if b then ''True'' else ''False'')"
| "csv_field (JInt i) = str_int i"
| "csv_field (JOther t s) = s"

text \<open>Whether the text of a value can be encoded for the file.\<close>

fun encodable :: "json \<Rightarrow> bool" where
  "encodable (JBadStr s) = False"
| "encodable v = True"

text \<open>
  \<open>DictWriter.writerow\<close>: the values of the dictionary in the order of the field
  names, the empty string for a field name the dictionary lacks, as one row of text.
  The write of the row raises \<open>UnicodeEncodeError\<close>, and nothing of the row reaches
  the file, when one of the values cannot be encoded.
\<close>

definition DictWriter_row :: "string list \<Rightarrow> (string \<times> json) list \<Rightarrow> exn + string list" where
  "DictWriter_row fieldnames rowdict =
     (let vals = map (\<lambda>k. case map_of rowdict k of None \<Rightarrow> JStr [] | Some v \<Rightarrow> v) fieldnames
      in if list_all encodable vals then Inr (map csv_field vals) else Inl UnicodeEncodeError)"

text \<open>
  A row as \<open>DictReader\<close> yields it: a dictionary from the field names to the text of
  the fields.  A row shorter than the header has \<open>None\<close> for the missing fields; a
  longer one has the list of the surplus fields under the key \<open>None\<close>.
\<close>

datatype csv_value = Str string | PyNone | Rest "string list"

type_synonym row_dict = "(string option \<times> csv_value) list"

text \<open>\<open>d[k] = v\<close> on a dictionary that keeps insertion order.\<close>

fun dict_set :: "('k \<times> 'v) list \<Rightarrow> 'k \<Rightarrow> 'v \<Rightarrow> ('k \<times> 'v) list" where
  "dict_set [] k v = [(k, v)]"
| "dict_set ((k', v') # d) k v =
     (if k' = k then (k', v) # d else (k', v') # dict_set d k v)"

definition dict_of :: "('k \<times> 'v) list \<Rightarrow> ('k \<times> 'v) list" where
  "dict_of ps = foldl (\<lambda>d (k, v). dict_set d k v) [] ps"

definition DictReader_row :: "string list \<Rightarrow> string list \<Rightarrow> row_dict" where
  "DictReader_row fieldnames row =
     (let d = dict_of (zip (map Some fieldnames) (map Str row));
          lf = length fieldnames;
          lr = length row
      in if lf < lr then dict_set d None (Rest (drop lf row))
         else if lf > lr then foldl (\<lambda>d key. dict_set d (Some key) PyNone) d (drop lr fieldnames)
         else d)"

text \<open>
  The csv reader raises \<open>csv.Error\<close> at a row that has a field of more characters
  than its field size limit, which the program leaves at the default.
\<close>

definition field_size_limit :: nat where
  "field_size_limit = 131072"

definition readable :: "string list \<Rightarrow> bool" where
  "readable row = list_all (\<lambda>field. length field \<le> field_size_limit) row"

text \<open>
  What iterating over a \<open>DictReader\<close> gives, step by step: a dictionary for each row
  that has a field, and the exception at which the iteration ends.  The first row gives
  the field names; rows without any field are skipped.
\<close>

fun DictReader_rows :: "string list \<Rightarrow> csv_file \<Rightarrow> (exn + row_dict) list" where
  "DictReader_rows fieldnames [] = []"
| "DictReader_rows fieldnames (row # rest) =
     (if \<not> readable row then [Inl csv_Error]
      else if row = [] then DictReader_rows fieldnames rest
      else Inr (DictReader_row fieldnames row) # DictReader_rows fieldnames rest)"

definition DictReader :: "csv_file \<Rightarrow> (exn + row_dict) list" where
  "DictReader rows =
     (case rows of
        [] \<Rightarrow> []
      | fieldnames # rest \<Rightarrow>
          if \<not> readable fieldnames then [Inl csv_Error] else DictReader_rows fieldnames rest)"

text \<open>\<open>row[k]\<close>, without the error of a missing key.\<close>

definition row_get :: "row_dict \<Rightarrow> string \<Rightarrow> csv_value option" where
  "row_get row k = map_of row (Some k)"

text \<open>
  \<open>==\<close> between a value read from the file and a value of the request.  A string
  equals only the same string; a string with a surrogate is never read from the file.
  The list under the key \<open>None\<close> is never what a field name reads.
\<close>

fun py_eq :: "csv_value \<Rightarrow> json \<Rightarrow> bool" where
  "py_eq (Str s) (JStr t) = (s = t)"
| "py_eq PyNone JNull = True"
| "py_eq _ _ = False"

section \<open>The handlers (server.py)\<close>

text \<open>
  What a handler returns: the JSON body and the HTTP status (200 where the source
  returns the body alone).  \<open>Failure e\<close> is the body of the \<open>except\<close> branch, with
  \<open>str(e)\<close> as its message and \<open>success\<close> false.
\<close>

datatype body = Message bool string | Failure exn | Admins "row_dict list"

type_synonym response = "body \<times> nat"

text \<open>The header literal of lines 31 and 38.\<close>

definition header_row :: "string list" where
  "header_row = [''username'', ''email'', ''password'', ''role'', ''created'']"

text \<open>
  Lines 26 to 31, after the configuration is selected: the file is created with the
  header row when nothing exists at its path.  A \<open>KeyError\<close> of line 11 ends the
  start of the process.
\<close>

definition startup :: "string option \<Rightarrow> string \<Rightarrow> world \<Rightarrow> exn + world" where
  "startup FLASK_ENV BASE_DIR w =
     (case app_config FLASK_ENV of
        Inl e \<Rightarrow> Inl e
      | Inr c \<Rightarrow>
          Inr (if files w (csv_file_path BASE_DIR) = None
               then open_w_writerow (csv_file_path BASE_DIR) header_row w
               else w))"

definition clear_csv_cache :: "string \<Rightarrow> world \<Rightarrow> world" where
  "clear_csv_cache BASE_DIR w = open_w_writerow (csv_file_path BASE_DIR) header_row w"

text \<open>
  The loop of lines 72 to 74 over the steps of the reader: \<open>Inr True\<close> when a row's
  email equals the candidate's (the early return, before any later row is read),
  \<open>Inr False\<close> when the rows are used up, the exception of the reader when it raises,
  \<open>KeyError\<close> at a row that has no \<open>email\<close>.
\<close>

fun find_email :: "(exn + row_dict) list \<Rightarrow> json \<Rightarrow> exn + bool" where
  "find_email [] email = Inr False"
| "find_email (Inl e # rows) email = Inl e"
| "find_email (Inr row # rows) email =
     (case row_get row ''email'' of
        None \<Rightarrow> Inl (KeyError ''email'')
      | Some v \<Rightarrow> if py_eq v email then Inr True else find_email rows email)"

text \<open>
  \<open>save_admin\<close>, on what \<open>request.json\<close> gives.  Every exception is answered by
  the \<open>except\<close> branch; its logging is not part of the state.
\<close>

definition save_admin :: "string \<Rightarrow> world \<Rightarrow> request_json \<Rightarrow> response \<times> world" where
  "save_admin BASE_DIR w req =
     (case req of
        Raised e \<Rightarrow> ((Failure e, 500), w)
      | NotObject t \<Rightarrow> ((Failure (AttributeError t), 500), w)
      | Object data \<Rightarrow>
          (let username = dict_get data ''username'';
               email = dict_get data ''email'';
               password = dict_get data ''password'';
               role = dict_get data ''role''
           in if \<not> truthy username \<or> \<not> truthy email \<or> \<not> truthy password \<or> \<not> truthy role
              then ((Message False ''All fields are required'', 400), w)
              else
                (case open_r (csv_file_path BASE_DIR) w of
                   (Inl e, w1) \<Rightarrow> ((Failure e, 500), w1)
                 | (Inr rows, w1) \<Rightarrow>
                     (case find_email (DictReader rows) email of
                        Inl e \<Rightarrow> ((Failure e, 500), w1)
                      | Inr found \<Rightarrow>
                          if found
                          then ((Message False ''Admin with this email already exists'', 409), w1)
                          else
                            (let new_admin =
                                   [ (''username'', username),
                                     (''email'', email),
                                     (''password'', password),
                                     (''role'', role),
                                     (''created'', dict_get_default data ''created'' (JStr [])) ];
                                 w2 = open_a (csv_file_path BASE_DIR) w1
                             in case DictWriter_row (map fst new_admin) new_admin of
                                  Inl e \<Rightarrow> ((Failure e, 500), w2)
                                | Inr row \<Rightarrow>
                                    ((Message True ''Admin saved successfully'', 200),
                                     writerow (csv_file_path BASE_DIR) row w2))))))"

text \<open>
  The loop of lines 101 and 102: all the rows, or the exception of the reader.
\<close>

fun admins_of :: "(exn + row_dict) list \<Rightarrow> exn + row_dict list" where
  "admins_of [] = Inr []"
| "admins_of (Inl e # rows) = Inl e"
| "admins_of (Inr row # rows) =
     (case admins_of rows of Inl e \<Rightarrow> Inl e | Inr admins \<Rightarrow> Inr (row # admins))"

text \<open>
  \<open>jsonify\<close> sorts the keys of every dictionary, which raises \<open>TypeError\<close> when
  the key \<open>None\<close> is to be compared with a string.
\<close>

definition jsonify :: "row_dict list \<Rightarrow> exn + row_dict list" where
  "jsonify admins =
     (if list_ex (\<lambda>row. None \<in> set (map fst row) \<and> 1 < length row) admins
      then Inl TypeError else Inr admins)"

definition load_admins :: "string \<Rightarrow> world \<Rightarrow> response \<times> world" where
  "load_admins BASE_DIR w =
     (case open_r (csv_file_path BASE_DIR) w of
        (Inl e, w1) \<Rightarrow> ((Failure e, 500), w1)
      | (Inr rows, w1) \<Rightarrow>
          (case admins_of (DictReader rows) of
             Inl e \<Rightarrow> ((Failure e, 500), w1)
           | Inr admins \<Rightarrow>
               (case jsonify admins of
                  Inl e \<Rightarrow> ((Failure e, 500), w1)
                | Inr payload \<Rightarrow> ((Admins payload, 200), w1))))"

text \<open>Requests one after the other: the responses in order, and the last state.\<close>

fun save_admins :: "string \<Rightarrow> world \<Rightarrow> request_json list \<Rightarrow> response list \<times> world" where
  "save_admins BASE_DIR w [] = ([], w)"
| "save_admins BASE_DIR w (req # reqs) =
     (case save_admin BASE_DIR w req of
        (r, w1) \<Rightarrow> (case save_admins BASE_DIR w1 reqs of (rs, w2) \<Rightarrow> (r # rs, w2)))"

text \<open>
  The states a process, or a later one on the same directory, can be in: it starts
  where no storage file exists yet, and then serves requests and runs the exit hook.
\<close>

inductive reachable :: "string \<Rightarrow> world \<Rightarrow> bool" for BASE_DIR :: string where
  start: "files w0 (csv_file_path BASE_DIR) = None \<Longrightarrow> startup FLASK_ENV BASE_DIR w0 = Inr w
            \<Longrightarrow> reachable BASE_DIR w"
| append: "reachable BASE_DIR w \<Longrightarrow> reachable BASE_DIR (snd (save_admin BASE_DIR w req))"
| list: "reachable BASE_DIR w \<Longrightarrow> reachable BASE_DIR (snd (load_admins BASE_DIR w))"
| exit_hook: "reachable BASE_DIR w \<Longrightarrow> reachable BASE_DIR (clear_csv_cache BASE_DIR w)"

text \<open>
  The same states when every request that is submitted is an object that has a string
  as its email.
\<close>

inductive reachable_text :: "string \<Rightarrow> world \<Rightarrow> bool" for BASE_DIR :: string where
  start_text: "files w0 (csv_file_path BASE_DIR) = None \<Longrightarrow> startup FLASK_ENV BASE_DIR w0 = Inr w
            \<Longrightarrow> reachable_text BASE_DIR w"
| append_text: "reachable_text BASE_DIR w \<Longrightarrow> data ''email'' = Some (JStr e)
            \<Longrightarrow> reachable_text BASE_DIR (snd (save_admin BASE_DIR w (Object data)))"
| list_text: "reachable_text BASE_DIR w \<Longrightarrow> reachable_text BASE_DIR (snd (load_admins BASE_DIR w))"
| exit_hook_text: "reachable_text BASE_DIR w \<Longrightarrow> reachable_text BASE_DIR (clear_csv_cache BASE_DIR w)"

section \<open>Records as the specification speaks of them\<close>

text \<open>
  The records a file holds: the dictionaries of its rows, whether or not the reader
  can read them.
\<close>

definition row_dicts :: "csv_file \<Rightarrow> row_dict list" where
  "row_dicts rows =
     (case rows of
        [] \<Rightarrow> []
      | fieldnames # rest \<Rightarrow> map (DictReader_row fieldnames) (filter (\<lambda>r. r \<noteq> []) rest))"

text \<open>The emails of the records of a file.\<close>

definition emails :: "csv_file \<Rightarrow> csv_value option list" where
  "emails rows = map (\<lambda>row. row_get row ''email'') (row_dicts rows)"

text \<open>
  The text submitted for a field: the string the request has under the key, the empty
  string when the key is missing.
\<close>

definition submitted :: "json_object \<Rightarrow> string \<Rightarrow> string" where
  "submitted data k = (case data k of Some (JStr s) \<Rightarrow> s | _ \<Rightarrow> [])"


text \<open>
  A valid submission: username, email, password and role are strings that are not
  empty, and created is a string or missing; the strings are ones that UTF-8 encodes.
\<close>

definition is_text :: "json option \<Rightarrow> bool" where
  "is_text v = (case v of Some (JStr s) \<Rightarrow> True | _ \<Rightarrow> False)"

definition valid_submission :: "json_object \<Rightarrow> bool" where
  "valid_submission data =
     (is_text (data ''username'') \<and> submitted data ''username'' \<noteq> [] \<and>
      is_text (data ''email'') \<and> submitted data ''email'' \<noteq> [] \<and>
      is_text (data ''password'') \<and> submitted data ''password'' \<noteq> [] \<and>
      is_text (data ''role'') \<and> submitted data ''role'' \<noteq> [] \<and>
      (data ''created'' = None \<or> is_text (data ''created'')))"


text \<open>
  The rows of a file, the header apart, have at most as many fields as the header, and
  none of more characters than the field size limit.
\<close>

definition well_formed :: "csv_file \<Rightarrow> bool" where
  "well_formed rest = list_all (\<lambda>row. length row \<le> length header_row \<and> readable row) rest"

text \<open>
  The row that lines 77 to 88 write for a request that passes the checks: the text of the
  four required values and of \<open>created\<close>, in this order.
\<close>

definition new_row :: "json_object \<Rightarrow> string list" where
  "new_row data =
     [ csv_field (dict_get data ''username''),
       csv_field (dict_get data ''email''),
       csv_field (dict_get data ''password''),
       csv_field (dict_get data ''role''),
       csv_field (dict_get_default data ''created'' (JStr [])) ]"

text \<open>The five values of that row can be encoded.\<close>

definition writable :: "json_object \<Rightarrow> bool" where
  "writable data =
     (encodable (dict_get data ''username'') \<and> encodable (dict_get data ''email'') \<and>
      encodable (dict_get data ''password'') \<and> encodable (dict_get data ''role'') \<and>
      encodable (dict_get_default data ''created'' (JStr [])))"

text \<open>The check of line 66 passes.\<close>

definition required_present :: "json_object \<Rightarrow> bool" where
  "required_present data =
     (truthy (dict_get data ''username'') \<and> truthy (dict_get data ''email'') \<and>
      truthy (dict_get data ''password'') \<and> truthy (dict_get data ''role''))"

text \<open>A file system without any file, and the requests of the scenarios.\<close>

definition no_files :: world where
  "no_files = \<lparr> files = Map.empty, io_log = [] \<rparr>"

definition alice :: json_object where
  "alice = [''username'' \<mapsto> JStr ''alice'', ''email'' \<mapsto> JStr ''a@x.com'',
            ''password'' \<mapsto> JStr ''p'', ''role'' \<mapsto> JStr ''admin'']"

definition bob :: json_object where
  "bob = [''username'' \<mapsto> JStr ''bob'', ''email'' \<mapsto> JStr ''b@x.com'',
          ''password'' \<mapsto> JStr ''q'', ''role'' \<mapsto> JStr ''editor'',
          ''created'' \<mapsto> JStr ''2024-01-01'']"

text \<open>
  A request whose email is the number 5, a text of one character more than the field
  size limit, alice with that text as her password, alice with a surrogate in her
  username, and the state after the first start of the server in the directory
  \<open>/app\<close>, where no storage file existed.
\<close>

definition numeric :: json_object where
  "numeric = [''username'' \<mapsto> JStr ''n'', ''email'' \<mapsto> JInt 5,
              ''password'' \<mapsto> JStr ''p'', ''role'' \<mapsto> JStr ''admin'']"

definition long_text :: string where
  "long_text = replicate 131073 CHR ''x''"

definition oversize :: json_object where
  "oversize = alice(''password'' \<mapsto> JStr long_text)"


definition started :: world where
  "started = open_w_writerow (csv_file_path ''/app'') header_row no_files"

section \<open>Configuration selection\<close>

lemma map_of_config_other:
  "v \<notin> {''development'', ''testing'', ''production'', ''default''} \<Longrightarrow> map_of config v = None"
  by (simp add: config_def)

text \<open>
  C1, as the code has it.  Selection returns a profile when the environment indicator is
  absent or is one of the four keys of \<open>config\<close>: the development profile when it
  is absent, \<open>development\<close> or \<open>default\<close>, the testing profile for
  \<open>testing\<close>, the production profile for \<open>production\<close>.  For every other
  value the subscript raises \<open>KeyError\<close>: there is no fallback for an indicator
  that is set to an unrecognized value.
\<close>

theorem app_config_selection:
  "app_config None = Inr DevelopmentConfig \<and>
   app_config (Some ''development'') = Inr DevelopmentConfig \<and>
   app_config (Some ''testing'') = Inr TestingConfig \<and>
   app_config (Some ''production'') = Inr ProductionConfig \<and>
   app_config (Some ''default'') = Inr DevelopmentConfig \<and>
   (\<forall>v. v \<notin> {''development'', ''testing'', ''production'', ''default''}
        \<longrightarrow> app_config (Some v) = Inl (KeyError v))"
  by (simp add: app_config_def env_def getenv_def map_of_config_other)
     (simp add: config_def)

theorem app_config_selection_witness:
  "''staging'' \<notin> {''development'', ''testing'', ''production'', ''default''} \<and>
   app_config (Some ''staging'') = Inl (KeyError ''staging'') \<and>
   app_config None = Inr DevelopmentConfig"
  using app_config_selection by simp

text \<open>
  C1 as stated fails: with the indicator set to \<open>staging\<close> no profile is selected,
  and in particular not the development profile.
\<close>

theorem app_config_unrecognized:
  "app_config (Some ''staging'') = Inl (KeyError ''staging'') \<and>
   app_config (Some ''staging'') \<noteq> Inr DevelopmentConfig"
  by (simp add: app_config_def env_def getenv_def config_def)

section \<open>Dictionaries read from the file\<close>

lemma keys_dict_set: "fst ` set (dict_set d k v) = insert k (fst ` set d)"
  by (induction d) force+

lemma keys_foldl_dict_set:
  "fst ` set (foldl (\<lambda>d (k, v). dict_set d k v) d ps) = fst ` set d \<union> fst ` set ps"
proof (induction ps arbitrary: d)
  case Nil
  show ?case by simp
next
  case (Cons p ps)
  obtain k v where p: "p = (k, v)" by (cases p)
  show ?case
    by (simp add: p Cons.IH keys_dict_set)
qed

lemma keys_dict_of: "fst ` set (dict_of ps) = fst ` set ps"
  by (simp add: dict_of_def keys_foldl_dict_set)

lemma keys_foldl_PyNone:
  "fst ` set (foldl (\<lambda>d key. dict_set d (Some key) PyNone) d ks) = fst ` set d \<union> Some ` set ks"
proof (induction ks arbitrary: d)
  case Nil
  show ?case by simp
next
  case (Cons k ks)
  show ?case
    by (simp add: Cons.IH keys_dict_set)
qed

lemma keys_zip: "fst ` set (zip xs ys) = set (take (length ys) xs)"
proof -
  have "fst ` set (zip xs ys) = set (map fst (zip xs ys))" by simp
  also have "\<dots> = set (take (min (length xs) (length ys)) xs)"
    by (simp only: map_fst_zip_take)
  also have "\<dots> = set (take (length ys) xs)"
    by (simp add: min_def)
  finally show ?thesis .
qed

lemma keys_DictReader_row:
  "fst ` set (DictReader_row fieldnames row) =
     Some ` set fieldnames \<union> (if length fieldnames < length row then {None} else {})"
proof -
  let ?d = "dict_of (zip (map Some fieldnames) (map Str row))"
  have d: "fst ` set ?d = Some ` set (take (length row) fieldnames)"
    by (simp add: keys_dict_of keys_zip take_map)
  have split: "set fieldnames = set (take (length row) fieldnames) \<union> set (drop (length row) fieldnames)"
    by (metis append_take_drop_id set_append)
  show ?thesis
  proof (cases "length fieldnames < length row")
    case True
    then show ?thesis
      by (simp add: DictReader_row_def Let_def keys_dict_set d)
  next
    case False
    note ge = this
    show ?thesis
    proof (cases "length row < length fieldnames")
      case True
      have "fst ` set (DictReader_row fieldnames row) =
              Some ` set (take (length row) fieldnames) \<union> Some ` set (drop (length row) fieldnames)"
        using True ge by (simp add: DictReader_row_def Let_def keys_foldl_PyNone d)
      also have "\<dots> = Some ` set fieldnames"
        using split by (metis image_Un)
      finally show ?thesis using ge by simp
    next
      case False
      with ge show ?thesis
        by (simp add: DictReader_row_def Let_def d)
    qed
  qed
qed

lemma row_get_DictReader_row:
  "(row_get (DictReader_row fieldnames row) k = None) = (k \<notin> set fieldnames)"
  by (auto simp: row_get_def map_of_eq_None_iff keys_DictReader_row)

lemma DictReader_row_header:
  "DictReader_row header_row [a, b, c, d, e] =
     [(Some ''username'', Str a), (Some ''email'', Str b), (Some ''password'', Str c),
      (Some ''role'', Str d), (Some ''created'', Str e)]"
  by (simp add: DictReader_row_def header_row_def dict_of_def)


lemma DictReader_rows_readable:
  "list_all readable rest \<Longrightarrow>
   DictReader_rows fieldnames rest =
     map Inr (map (DictReader_row fieldnames) (filter (\<lambda>r. r \<noteq> []) rest))"
  by (induction rest) simp_all

lemma DictReader_readable:
  "list_all readable rows \<Longrightarrow> DictReader rows = map Inr (row_dicts rows)"
  by (cases rows) (simp_all add: DictReader_def row_dicts_def DictReader_rows_readable)

lemma admins_of_map_Inr: "admins_of (map Inr rows) = Inr rows"
  by (induction rows) simp_all

lemma find_email_found:
  "\<forall>row \<in> set rows. row_get row ''email'' \<noteq> None \<Longrightarrow>
   \<exists>row \<in> set rows. \<exists>v. row_get row ''email'' = Some v \<and> py_eq v email \<Longrightarrow>
   find_email (map Inr rows) email = Inr True"
  by (induction rows) (auto split: option.splits)

lemma find_email_not_found:
  "\<forall>row \<in> set rows. \<exists>v. row_get row ''email'' = Some v \<and> \<not> py_eq v email \<Longrightarrow>
   find_email (map Inr rows) email = Inr False"
  by (induction rows) (auto split: option.splits)

lemma py_eq_JStr: "py_eq v (JStr e) = (v = Str e)"
  by (cases v) auto

lemma find_email_rows_False:
  "find_email (DictReader_rows fieldnames rest) (JStr e) = Inr False \<Longrightarrow>
   list_all readable rest \<and>
   (\<forall>r \<in> set (filter (\<lambda>r. r \<noteq> []) rest).
      row_get (DictReader_row fieldnames r) ''email'' \<noteq> Some (Str e))"
  by (induction rest) (auto simp: py_eq_JStr split: if_splits option.splits)

lemma find_email_False:
  "find_email (DictReader rows) (JStr e) = Inr False \<Longrightarrow>
   list_all readable rows \<and> Some (Str e) \<notin> set (emails rows)"
proof (cases rows)
  case Nil
  then show ?thesis by (simp add: emails_def row_dicts_def)
next
  case (Cons fieldnames rest)
  assume f: "find_email (DictReader rows) (JStr e) = Inr False"
  with Cons have r: "readable fieldnames"
    by (auto simp: DictReader_def split: if_splits)
  with f Cons have "find_email (DictReader_rows fieldnames rest) (JStr e) = Inr False"
    by (simp add: DictReader_def)
  from find_email_rows_False [OF this] r Cons show ?thesis
    by (auto simp: emails_def row_dicts_def)
qed

section \<open>The handlers, case by case\<close>

lemma DictWriter_new_admin:
  "DictWriter_row
     (map fst [(''username'', u), (''email'', e), (''password'', p), (''role'', r), (''created'', c)])
     [(''username'', u), (''email'', e), (''password'', p), (''role'', r), (''created'', c)] =
   (if encodable u \<and> encodable e \<and> encodable p \<and> encodable r \<and> encodable c
    then Inr [csv_field u, csv_field e, csv_field p, csv_field r, csv_field c]
    else Inl UnicodeEncodeError)"
  by (simp add: DictWriter_row_def)

lemma save_admin_raised: "save_admin B w (Raised e) = ((Failure e, 500), w)"
  by (simp add: save_admin_def)

lemma save_admin_not_object:
  "save_admin B w (NotObject t) = ((Failure (AttributeError t), 500), w)"
  by (simp add: save_admin_def)

lemma save_admin_rejected:
  "\<not> required_present data \<Longrightarrow>
   save_admin B w (Object data) = ((Message False ''All fields are required'', 400), w)"
  by (auto simp: save_admin_def required_present_def Let_def)

lemma save_admin_missing_file:
  "required_present data \<Longrightarrow> files w (csv_file_path B) = None \<Longrightarrow>
   save_admin B w (Object data) =
     ((Failure (FileNotFoundError (csv_file_path B)), 500),
      w \<lparr> io_log := io_log w @ [Open (csv_file_path B) ''r''] \<rparr>)"
  by (simp add: save_admin_def required_present_def Let_def open_r_def)

lemma save_admin_scan_raises:
  "required_present data \<Longrightarrow> files w (csv_file_path B) = Some rows \<Longrightarrow>
   find_email (DictReader rows) (dict_get data ''email'') = Inl e \<Longrightarrow>
   save_admin B w (Object data) =
     ((Failure e, 500), w \<lparr> io_log := io_log w @ [Open (csv_file_path B) ''r''] \<rparr>)"
  by (simp add: save_admin_def required_present_def Let_def open_r_def)

lemma save_admin_conflict:
  "required_present data \<Longrightarrow> files w (csv_file_path B) = Some rows \<Longrightarrow>
   find_email (DictReader rows) (dict_get data ''email'') = Inr True \<Longrightarrow>
   save_admin B w (Object data) =
     ((Message False ''Admin with this email already exists'', 409),
      w \<lparr> io_log := io_log w @ [Open (csv_file_path B) ''r''] \<rparr>)"
  by (simp add: save_admin_def required_present_def Let_def open_r_def)

lemma save_admin_saved:
  "required_present data \<Longrightarrow> files w (csv_file_path B) = Some rows \<Longrightarrow>
   find_email (DictReader rows) (dict_get data ''email'') = Inr False \<Longrightarrow>
   writable data \<Longrightarrow>
   save_admin B w (Object data) =
     ((Message True ''Admin saved successfully'', 200),
      w \<lparr> files := (files w)(csv_file_path B \<mapsto> rows @ [new_row data]),
          io_log := io_log w @ [Open (csv_file_path B) ''r'', Open (csv_file_path B) ''a''] \<rparr>)"
  by (simp add: save_admin_def required_present_def Let_def open_r_def open_a_def writerow_def
      DictWriter_row_def new_row_def writable_def)

lemma save_admin_write_raises:
  "required_present data \<Longrightarrow> files w (csv_file_path B) = Some rows \<Longrightarrow>
   find_email (DictReader rows) (dict_get data ''email'') = Inr False \<Longrightarrow>
   \<not> writable data \<Longrightarrow>
   save_admin B w (Object data) =
     ((Failure UnicodeEncodeError, 500),
      w \<lparr> io_log := io_log w @ [Open (csv_file_path B) ''r'', Open (csv_file_path B) ''a''] \<rparr>)"
proof -
  assume f: "files w (csv_file_path B) = Some rows"
  then have "(files w)(csv_file_path B \<mapsto> rows) = files w"
    by (rule map_upd_triv)
  moreover assume "required_present data"
    "find_email (DictReader rows) (dict_get data ''email'') = Inr False" "\<not> writable data"
  ultimately show ?thesis
    using f
    by (simp add: save_admin_def required_present_def Let_def open_r_def open_a_def
        DictWriter_row_def writable_def)
qed

lemma jsonify_no_None:
  "\<forall>row \<in> set admins. None \<notin> fst ` set row \<Longrightarrow> jsonify admins = Inr admins"
  by (auto simp: jsonify_def list_ex_iff)

lemma no_None_key:
  "length row \<le> length fieldnames \<Longrightarrow> None \<notin> fst ` set (DictReader_row fieldnames row)"
  by (simp add: keys_DictReader_row)

lemma jsonify_row_dicts:
  "list_all (\<lambda>row. length row \<le> length fieldnames) rest \<Longrightarrow>
   jsonify (row_dicts (fieldnames # rest)) = Inr (row_dicts (fieldnames # rest))"
  by (rule jsonify_no_None) (auto simp: row_dicts_def list_all_iff no_None_key)

lemma load_admins_missing_file:
  "files w (csv_file_path B) = None \<Longrightarrow>
   load_admins B w =
     ((Failure (FileNotFoundError (csv_file_path B)), 500),
      w \<lparr> io_log := io_log w @ [Open (csv_file_path B) ''r''] \<rparr>)"
  by (simp add: load_admins_def open_r_def)


lemma load_admins_file:
  assumes "files w (csv_file_path B) = Some (fieldnames # rest)"
    and "readable fieldnames"
    and "list_all (\<lambda>row. length row \<le> length fieldnames \<and> readable row) rest"
  shows "load_admins B w =
     ((Admins (row_dicts (fieldnames # rest)), 200),
      w \<lparr> io_log := io_log w @ [Open (csv_file_path B) ''r''] \<rparr>)"
proof -
  have r: "list_all readable (fieldnames # rest)"
    using assms(2,3) by (simp add: list_all_iff)
  have l: "list_all (\<lambda>row. length row \<le> length fieldnames) rest"
    using assms(3) by (simp add: list_all_iff)
  show ?thesis
    by (simp add: load_admins_def open_r_def assms(1) DictReader_readable [OF r]
        admins_of_map_Inr jsonify_row_dicts [OF l])
qed

section \<open>Validation\<close>

lemma absent_or_empty_falsy:
  "data k = None \<or> data k = Some (JStr []) \<Longrightarrow> \<not> truthy (dict_get data k)"
  by (auto simp: dict_get_def)

lemma falsy_not_required_present:
  "k \<in> {''username'', ''email'', ''password'', ''role''} \<Longrightarrow> \<not> truthy (dict_get data k) \<Longrightarrow>
   \<not> required_present data"
  by (auto simp: required_present_def)

text \<open>
  C7, as the code has it.  When the body of the request is a JSON object in which one of
  username, email, password and role is absent or is the empty string, \<open>save_admin\<close>
  answers with status 400 and the message that all fields are required, and no file is
  changed.  When the body is not a JSON object, or \<open>request.json\<close> raises, the
  \<open>except\<close> branch answers with status 500, and no file is changed either.
\<close>

theorem save_admin_missing_field:
  "(k \<in> {''username'', ''email'', ''password'', ''role''} \<and>
    (data k = None \<or> data k = Some (JStr [])) \<longrightarrow>
      fst (save_admin B w (Object data)) = (Message False ''All fields are required'', 400) \<and>
      files (snd (save_admin B w (Object data))) = files w) \<and>
   fst (save_admin B w (NotObject t)) = (Failure (AttributeError t), 500) \<and>
   files (snd (save_admin B w (NotObject t))) = files w \<and>
   fst (save_admin B w (Raised e)) = (Failure e, 500) \<and>
   files (snd (save_admin B w (Raised e))) = files w"
proof -
  have "fst (save_admin B w (Object data)) = (Message False ''All fields are required'', 400) \<and>
      files (snd (save_admin B w (Object data))) = files w"
    if k: "k \<in> {''username'', ''email'', ''password'', ''role''}"
      and a: "data k = None \<or> data k = Some (JStr [])"
  proof -
    have "\<not> truthy (dict_get data k)"
      using a by (rule absent_or_empty_falsy)
    with k have "\<not> required_present data"
      by (rule falsy_not_required_present)
    then show ?thesis
      by (simp add: save_admin_rejected)
  qed
  then show ?thesis
    by (simp add: save_admin_not_object save_admin_raised)
qed

theorem save_admin_missing_field_witness:
  "''role'' \<in> {''username'', ''email'', ''password'', ''role''} \<and>
   (alice(''role'' \<mapsto> JStr [])) ''role'' = Some (JStr []) \<and>
   fst (save_admin ''/app'' no_files (Object (alice(''role'' \<mapsto> JStr [])))) =
     (Message False ''All fields are required'', 400) \<and>
   files (snd (save_admin ''/app'' no_files (Object (alice(''role'' \<mapsto> JStr []))))) = files no_files \<and>
   fst (save_admin ''/app'' no_files (Raised (HTTPException 400))) = (Failure (HTTPException 400), 500)"
  using save_admin_missing_field
          [of "''role''" "alice(''role'' \<mapsto> JStr [])" "''/app''" no_files "''NoneType''" "HTTPException 400"]
  by simp

text \<open>
  C7 as stated fails: the body \<open>null\<close> has none of the required fields, and the
  answer is the server error of the \<open>except\<close> branch, status 500.
\<close>

theorem save_admin_null_body:
  "fst (save_admin ''/app'' no_files (NotObject ''NoneType'')) =
     (Failure (AttributeError ''NoneType''), 500)"
  by (simp add: save_admin_not_object)

text \<open>
  C10, as the code has it.  When the body of the request is a JSON object in which one of
  username, email, password and role is falsy (absent, null, the empty string, 0, false
  or any other value Python takes for false), \<open>save_admin\<close> answers with status 400
  before it opens any file: the record of opened files is the one it started with.  When
  the body is not a JSON object, or \<open>request.json\<close> raises, the answer is the server
  error, status 500, and no file is opened either.
\<close>

theorem save_admin_rejects_before_file_access:
  "(k \<in> {''username'', ''email'', ''password'', ''role''} \<and> \<not> truthy (dict_get data k) \<longrightarrow>
      fst (save_admin B w (Object data)) = (Message False ''All fields are required'', 400) \<and>
      io_log (snd (save_admin B w (Object data))) = io_log w) \<and>
   fst (save_admin B w (NotObject t)) = (Failure (AttributeError t), 500) \<and>
   io_log (snd (save_admin B w (NotObject t))) = io_log w \<and>
   fst (save_admin B w (Raised e)) = (Failure e, 500) \<and>
   io_log (snd (save_admin B w (Raised e))) = io_log w"
proof -
  have "fst (save_admin B w (Object data)) = (Message False ''All fields are required'', 400) \<and>
      io_log (snd (save_admin B w (Object data))) = io_log w"
    if "k \<in> {''username'', ''email'', ''password'', ''role''}" and "\<not> truthy (dict_get data k)"
  proof -
    have "\<not> required_present data"
      using that by (rule falsy_not_required_present)
    then show ?thesis
      by (simp add: save_admin_rejected)
  qed
  then show ?thesis
    by (simp add: save_admin_not_object save_admin_raised)
qed

theorem save_admin_rejects_before_file_access_witness:
  "''password'' \<in> {''username'', ''email'', ''password'', ''role''} \<and>
   \<not> truthy (dict_get (alice(''password'' \<mapsto> JInt 0)) ''password'') \<and>
   fst (save_admin ''/app'' no_files (Object (alice(''password'' \<mapsto> JInt 0)))) =
     (Message False ''All fields are required'', 400) \<and>
   io_log (snd (save_admin ''/app'' no_files (Object (alice(''password'' \<mapsto> JInt 0))))) = io_log no_files \<and>
   io_log (snd (save_admin ''/app'' no_files (Raised (HTTPException 415)))) = io_log no_files"
  using save_admin_rejects_before_file_access
          [of "''password''" "alice(''password'' \<mapsto> JInt 0)" "''/app''" no_files "''list''" "HTTPException 415"]
  by (simp add: dict_get_def)

text \<open>
  C10 as stated fails: a body that is an array has none of the required fields, and the
  answer is not the client-input error but the server error, status 500, though no file
  is opened.
\<close>

theorem save_admin_array_body:
  "fst (save_admin ''/app'' no_files (NotObject ''list'')) = (Failure (AttributeError ''list''), 500) \<and>
   io_log (snd (save_admin ''/app'' no_files (NotObject ''list''))) = io_log no_files"
  by (simp add: save_admin_not_object)

text \<open>
  By contrast, a request that passes the check does open the storage file for reading,
  as its first access.
\<close>

lemma save_admin_checked_opens_file:
  "required_present data \<Longrightarrow>
   take (Suc (length (io_log w))) (io_log (snd (save_admin B w (Object data)))) =
     io_log w @ [Open (csv_file_path B) ''r'']"
proof (cases "files w (csv_file_path B)")
  case None
  assume "required_present data"
  with None show ?thesis by (simp add: save_admin_missing_file)
next
  case (Some rows)
  assume rp: "required_present data"
  show ?thesis
  proof (cases "find_email (DictReader rows) (dict_get data ''email'')")
    case (Inl e)
    with rp Some show ?thesis by (simp add: save_admin_scan_raises)
  next
    case (Inr found)
    with rp Some show ?thesis
      by (cases found; cases "writable data")
         (simp_all add: save_admin_conflict save_admin_saved save_admin_write_raises)
  qed
qed

section \<open>The exit hook\<close>

text \<open>
  C8.  After \<open>clear_csv_cache\<close> the storage file holds the header row
  \<open>username,email,password,role,created\<close> and nothing else, whatever it held before
  and however many requests were served before; listing then returns no record.
\<close>

theorem clear_csv_cache_header_only:
  "files (clear_csv_cache B w) (csv_file_path B) =
     Some [[''username'', ''email'', ''password'', ''role'', ''created'']] \<and>
   files (clear_csv_cache B (snd (save_admins B w reqs))) (csv_file_path B) =
     Some [[''username'', ''email'', ''password'', ''role'', ''created'']] \<and>
   fst (load_admins B (clear_csv_cache B w)) = (Admins [], 200)"
  by (simp add: clear_csv_cache_def open_w_writerow_def header_row_def load_admins_def open_r_def
      DictReader_def readable_def field_size_limit_def jsonify_def)

section \<open>Appending\<close>

lemma emails_has_email_key:
  assumes "Some v \<in> set (emails rows)"
  shows "\<exists>fieldnames rest. rows = fieldnames # rest \<and> ''email'' \<in> set fieldnames"
proof (cases rows)
  case Nil
  with assms show ?thesis by (simp add: emails_def row_dicts_def)
next
  case (Cons fieldnames rest)
  from assms Cons obtain r where "row_get (DictReader_row fieldnames r) ''email'' = Some v"
    by (auto simp: emails_def row_dicts_def)
  then have "''email'' \<in> set fieldnames"
    using row_get_DictReader_row [of fieldnames r "''email''"] by auto
  with Cons show ?thesis by simp
qed

lemma row_dicts_all_have_email:
  "''email'' \<in> set fieldnames \<Longrightarrow>
   \<forall>row \<in> set (row_dicts (fieldnames # rest)). row_get row ''email'' \<noteq> None"
proof
  fix row assume key: "''email'' \<in> set fieldnames"
    and "row \<in> set (row_dicts (fieldnames # rest))"
  then obtain r where "row = DictReader_row fieldnames r"
    by (auto simp: row_dicts_def)
  with key show "row_get row ''email'' \<noteq> None"
    using row_get_DictReader_row [of fieldnames r "''email''"] by simp
qed

lemma find_email_present:
  assumes "list_all readable rows" and "Some (Str e) \<in> set (emails rows)"
  shows "find_email (DictReader rows) (JStr e) = Inr True"
proof -
  from assms(2) obtain fieldnames rest where rows: "rows = fieldnames # rest"
    and key: "''email'' \<in> set fieldnames"
    using emails_has_email_key by blast
  have all: "\<forall>row \<in> set (row_dicts rows). row_get row ''email'' \<noteq> None"
    unfolding rows using key by (rule row_dicts_all_have_email)
  from assms(2) obtain row where "row \<in> set (row_dicts rows)" "row_get row ''email'' = Some (Str e)"
    by (auto simp: emails_def)
  then have "\<exists>row \<in> set (row_dicts rows). \<exists>v. row_get row ''email'' = Some v \<and> py_eq v (JStr e)"
    by (auto simp: py_eq_JStr)
  with all have "find_email (map Inr (row_dicts rows)) (JStr e) = Inr True"
    by (rule find_email_found)
  then show ?thesis
    by (simp only: DictReader_readable [OF assms(1)])
qed

lemma find_email_absent:
  assumes "list_all readable (fieldnames # rest)"
    and "''email'' \<in> set fieldnames"
    and "Some (Str e) \<notin> set (emails (fieldnames # rest))"
  shows "find_email (DictReader (fieldnames # rest)) (JStr e) = Inr False"
proof -
  have "find_email (map Inr (row_dicts (fieldnames # rest))) (JStr e) = Inr False"
  proof (rule find_email_not_found, rule ballI)
    fix row assume row: "row \<in> set (row_dicts (fieldnames # rest))"
    with assms(2) obtain v where v: "row_get row ''email'' = Some v"
      using row_dicts_all_have_email by blast
    with row assms(3) have "v \<noteq> Str e"
      by (force simp: emails_def)
    with v show "\<exists>v. row_get row ''email'' = Some v \<and> \<not> py_eq v (JStr e)"
      by (simp add: py_eq_JStr)
  qed
  then show ?thesis
    by (simp only: DictReader_readable [OF assms(1)])
qed

text \<open>
  C4, as the code has it.  The storage file exists and has no field of more characters
  than the field size limit of the csv reader.  When the request passes the check for
  required fields and its email is a string that some record of the file has as its
  email, \<open>save_admin\<close> answers with status 409 and the message that an admin with
  this email exists, and no file is changed.  A request that fails the check for
  required fields is answered with status 400 and nothing is changed or read, whatever
  its email.
\<close>

theorem save_admin_duplicate_email:
  "(files w (csv_file_path B) = Some rows \<and> list_all readable rows \<and>
    required_present data \<and> data ''email'' = Some (JStr e) \<and>
    Some (Str e) \<in> set (emails rows) \<longrightarrow>
      fst (save_admin B w (Object data)) =
        (Message False ''Admin with this email already exists'', 409) \<and>
      files (snd (save_admin B w (Object data))) = files w) \<and>
   (\<not> required_present data \<longrightarrow>
      fst (save_admin B w (Object data)) = (Message False ''All fields are required'', 400) \<and>
      snd (save_admin B w (Object data)) = w)"
proof -
  have "fst (save_admin B w (Object data)) =
        (Message False ''Admin with this email already exists'', 409) \<and>
      files (snd (save_admin B w (Object data))) = files w"
    if f: "files w (csv_file_path B) = Some rows" and r: "list_all readable rows"
      and p: "required_present data" and e: "data ''email'' = Some (JStr e)"
      and m: "Some (Str e) \<in> set (emails rows)"
  proof -
    have "dict_get data ''email'' = JStr e"
      using e by (simp add: dict_get_def)
    then have "find_email (DictReader rows) (dict_get data ''email'') = Inr True"
      using r m by (simp add: find_email_present)
    with f p show ?thesis
      by (simp add: save_admin_conflict)
  qed
  then show ?thesis
    by (simp add: save_admin_rejected)
qed

lemma is_text_submitted: "is_text (data k) \<Longrightarrow> data k = Some (JStr (submitted data k))"
  by (auto simp: is_text_def submitted_def split: option.splits json.splits)

lemma valid_required_present: "valid_submission data \<Longrightarrow> required_present data"
  by (auto simp: valid_submission_def required_present_def dict_get_def dest!: is_text_submitted)

lemma valid_email: "valid_submission data \<Longrightarrow> dict_get data ''email'' = JStr (submitted data ''email'')"
  by (auto simp: valid_submission_def dict_get_def dest!: is_text_submitted)

lemma valid_created:
  assumes "valid_submission data"
  shows "dict_get_default data ''created'' (JStr []) = JStr (submitted data ''created'')"
proof (cases "data ''created''")
  case None
  then show ?thesis by (simp add: dict_get_default_def submitted_def)
next
  case (Some j)
  with assms have "is_text (Some j)" by (simp add: valid_submission_def)
  then obtain s where "j = JStr s"
    by (cases j) (simp_all add: is_text_def)
  with Some show ?thesis by (simp add: dict_get_default_def submitted_def)
qed

lemma valid_dict_get:
  "is_text (data k) \<Longrightarrow> dict_get data k = JStr (submitted data k)"
  using is_text_submitted [of data k] by (simp add: dict_get_def)

lemma valid_new_row: "valid_submission data \<Longrightarrow> new_row data = map (submitted data) header_row"
  by (simp add: new_row_def header_row_def valid_created)
     (simp add: valid_submission_def valid_dict_get)

lemma valid_writable: "valid_submission data \<Longrightarrow> writable data"
  by (simp add: writable_def valid_created)
     (simp add: valid_submission_def valid_dict_get)



lemma email_in_header_row: "''email'' \<in> set header_row"
  by (simp add: header_row_def)

lemma readable_header_row: "readable header_row"
  by (simp add: readable_def header_row_def field_size_limit_def)


lemma well_formed_readable: "well_formed rest \<Longrightarrow> list_all readable (header_row # rest)"
  by (simp add: well_formed_def readable_header_row list_all_iff)

lemma save_admin_valid_fresh:
  assumes "files w (csv_file_path B) = Some (header_row # rest)"
    and "list_all readable rest"
    and "valid_submission data"
    and "Some (Str (submitted data ''email'')) \<notin> set (emails (header_row # rest))"
  shows "save_admin B w (Object data) =
     ((Message True ''Admin saved successfully'', 200),
      w \<lparr> files := (files w)(csv_file_path B \<mapsto> (header_row # rest) @ [map (submitted data) header_row]),
          io_log := io_log w @ [Open (csv_file_path B) ''r'', Open (csv_file_path B) ''a''] \<rparr>)"
proof -
  have "list_all readable (header_row # rest)"
    using assms(2) by (simp add: readable_header_row)
  then have "find_email (DictReader (header_row # rest)) (dict_get data ''email'') = Inr False"
    using assms(3,4) by (simp add: valid_email find_email_absent email_in_header_row)
  with assms(1,3) show ?thesis
    by (simp add: save_admin_saved valid_required_present valid_new_row valid_writable)
qed


section \<open>The scenarios\<close>

lemma csv_file_path_app: "csv_file_path ''/app'' = ''/app/src/models/data/users.csv''"
  by (simp add: csv_file_path_def DATA_DIR_def os_path_join_def join2_def)

lemma files_started: "files started (csv_file_path ''/app'') = Some [header_row]"
  by (simp add: started_def open_w_writerow_def)

lemma startup_started: "startup None ''/app'' no_files = Inr started"
  by (simp add: startup_def app_config_def env_def getenv_def config_def started_def no_files_def)

lemma valid_alice: "valid_submission alice"
  by (simp add: valid_submission_def alice_def is_text_def submitted_def)


lemma submitted_alice:
  "map (submitted alice) header_row = [''alice'', ''a@x.com'', ''p'', ''admin'', []]"
  by (simp add: header_row_def alice_def submitted_def)

lemma submitted_bob:
  "map (submitted bob) header_row = [''bob'', ''b@x.com'', ''q'', ''editor'', ''2024-01-01'']"
  by (simp add: header_row_def bob_def submitted_def)



lemma emails_header_only: "emails [header_row] = []"
  by (simp add: emails_def row_dicts_def)

lemma emails_one_row: "emails [header_row, [a, b, c, d, e]] = [Some (Str b)]"
  by (simp add: emails_def row_dicts_def DictReader_row_header row_get_def)

lemma save_admin_started_alice:
  "save_admin ''/app'' started (Object alice) =
     ((Message True ''Admin saved successfully'', 200),
      started \<lparr> files := (files started)(csv_file_path ''/app'' \<mapsto>
                   [header_row, [''alice'', ''a@x.com'', ''p'', ''admin'', []]]),
                io_log := io_log started @
                   [Open (csv_file_path ''/app'') ''r'', Open (csv_file_path ''/app'') ''a''] \<rparr>)"
  using save_admin_valid_fresh [of started "''/app''" "[]" alice]
  by (simp add: files_started valid_alice emails_header_only submitted_alice)


lemma length_long_text: "length long_text = 131073"
  by (simp add: long_text_def)

lemma long_text_not_empty: "long_text \<noteq> []"
  using length_long_text by auto

lemma valid_oversize: "valid_submission oversize"
  by (simp add: valid_submission_def oversize_def alice_def is_text_def submitted_def long_text_not_empty)

lemma submitted_oversize:
  "map (submitted oversize) header_row = [''alice'', ''a@x.com'', long_text, ''admin'', []]"
  by (simp add: header_row_def oversize_def alice_def submitted_def)

lemma unreadable_oversize: "\<not> readable [''alice'', ''a@x.com'', long_text, ''admin'', []]"
  by (simp add: readable_def length_long_text field_size_limit_def)

lemma save_admin_started_oversize:
  "save_admin ''/app'' started (Object oversize) =
     ((Message True ''Admin saved successfully'', 200),
      started \<lparr> files := (files started)(csv_file_path ''/app'' \<mapsto>
                   [header_row, [''alice'', ''a@x.com'', long_text, ''admin'', []]]),
                io_log := io_log started @
                   [Open (csv_file_path ''/app'') ''r'', Open (csv_file_path ''/app'') ''a''] \<rparr>)"
  using save_admin_valid_fresh [of started "''/app''" "[]" oversize]
  by (simp add: files_started valid_oversize emails_header_only submitted_oversize)

lemma DictReader_oversize:
  "DictReader [header_row, [''alice'', ''a@x.com'', long_text, ''admin'', []]] = [Inl csv_Error]"
  by (simp add: DictReader_def readable_header_row unreadable_oversize)




text \<open>
  The second scenario: the same email again under another username is a conflict, and the
  file keeps the one row; and alice without her username is answered with status 400,
  and nothing is changed or read.
\<close>

theorem save_admin_duplicate_email_witness:
  "files (snd (save_admin ''/app'' started (Object alice))) (csv_file_path ''/app'') =
     Some [header_row, [''alice'', ''a@x.com'', ''p'', ''admin'', []]] \<and>
   list_all readable [header_row, [''alice'', ''a@x.com'', ''p'', ''admin'', []]] \<and>
   required_present (alice(''username'' \<mapsto> JStr ''alicia'')) \<and>
   (alice(''username'' \<mapsto> JStr ''alicia'')) ''email'' = Some (JStr ''a@x.com'') \<and>
   Some (Str ''a@x.com'') \<in> set (emails [header_row, [''alice'', ''a@x.com'', ''p'', ''admin'', []]]) \<and>
   fst (save_admin ''/app'' (snd (save_admin ''/app'' started (Object alice)))
          (Object (alice(''username'' \<mapsto> JStr ''alicia'')))) =
     (Message False ''Admin with this email already exists'', 409) \<and>
   files (snd (save_admin ''/app'' (snd (save_admin ''/app'' started (Object alice)))
                 (Object (alice(''username'' \<mapsto> JStr ''alicia''))))) =
     files (snd (save_admin ''/app'' started (Object alice))) \<and>
   \<not> required_present (alice(''username'' := None)) \<and>
   save_admin ''/app'' (snd (save_admin ''/app'' started (Object alice)))
       (Object (alice(''username'' := None))) =
     ((Message False ''All fields are required'', 400),
      snd (save_admin ''/app'' started (Object alice)))"
proof -
  have f: "files (snd (save_admin ''/app'' started (Object alice))) (csv_file_path ''/app'') =
     Some [header_row, [''alice'', ''a@x.com'', ''p'', ''admin'', []]]"
    by (simp add: save_admin_started_alice)
  have l: "list_all readable [header_row, [''alice'', ''a@x.com'', ''p'', ''admin'', []]]"
    by (simp add: readable_header_row) (simp add: readable_def field_size_limit_def)
  have r: "required_present (alice(''username'' \<mapsto> JStr ''alicia''))"
    by (simp add: required_present_def dict_get_def alice_def)
  have e: "(alice(''username'' \<mapsto> JStr ''alicia'')) ''email'' = Some (JStr ''a@x.com'')"
    by (simp add: alice_def)
  have m: "Some (Str ''a@x.com'') \<in> set (emails [header_row, [''alice'', ''a@x.com'', ''p'', ''admin'', []]])"
    by (simp add: emails_one_row)
  have n: "\<not> required_present (alice(''username'' := None))"
    by (simp add: required_present_def dict_get_def)
  from n
    save_admin_duplicate_email
      [of "snd (save_admin ''/app'' started (Object alice))" "''/app''"
          "[header_row, [''alice'', ''a@x.com'', ''p'', ''admin'', []]]"
          "alice(''username'' := None)" "''a@x.com''"]
  have "save_admin ''/app'' (snd (save_admin ''/app'' started (Object alice)))
       (Object (alice(''username'' := None))) =
     ((Message False ''All fields are required'', 400),
      snd (save_admin ''/app'' started (Object alice)))"
    by (simp add: prod_eq_iff)
  with f l r e m n
    save_admin_duplicate_email
      [of "snd (save_admin ''/app'' started (Object alice))" "''/app''"
          "[header_row, [''alice'', ''a@x.com'', ''p'', ''admin'', []]]"
          "alice(''username'' \<mapsto> JStr ''alicia'')" "''a@x.com''"]
  show ?thesis
    by blast
qed

text \<open>
  C4 as stated fails.  A candidate that has the email of a stored record and nothing
  else is answered with the client-input error of the check for required fields, status
  400, not with the conflict error.  And in the state that the Append of alice with a
  password of 131073 characters leaves, alice has the email of the stored record, and
  her Append is answered with the server error, because the csv reader raises in the
  scan for duplicates.
\<close>

theorem save_admin_duplicate_email_not_conflict:
  "files (snd (save_admin ''/app'' started (Object alice))) (csv_file_path ''/app'') =
     Some [header_row, [''alice'', ''a@x.com'', ''p'', ''admin'', []]] \<and>
   Some (Str ''a@x.com'') \<in> set (emails [header_row, [''alice'', ''a@x.com'', ''p'', ''admin'', []]]) \<and>
   fst (save_admin ''/app'' (snd (save_admin ''/app'' started (Object alice)))
          (Object [''email'' \<mapsto> JStr ''a@x.com''])) =
     (Message False ''All fields are required'', 400) \<and>
   files (snd (save_admin ''/app'' started (Object oversize))) (csv_file_path ''/app'') =
     Some [header_row, [''alice'', ''a@x.com'', long_text, ''admin'', []]] \<and>
   Some (Str ''a@x.com'') \<in> set (emails [header_row, [''alice'', ''a@x.com'', long_text, ''admin'', []]]) \<and>
   required_present alice \<and> alice ''email'' = Some (JStr ''a@x.com'') \<and>
   fst (save_admin ''/app'' (snd (save_admin ''/app'' started (Object oversize))) (Object alice)) =
     (Failure csv_Error, 500)"
proof -
  have n: "\<not> required_present [''email'' \<mapsto> JStr ''a@x.com'']"
    by (simp add: required_present_def dict_get_def)
  have 1: "fst (save_admin ''/app'' (snd (save_admin ''/app'' started (Object alice)))
          (Object [''email'' \<mapsto> JStr ''a@x.com''])) =
     (Message False ''All fields are required'', 400)"
    using n by (simp add: save_admin_rejected)
  have f: "files (snd (save_admin ''/app'' started (Object oversize))) (csv_file_path ''/app'') =
     Some [header_row, [''alice'', ''a@x.com'', long_text, ''admin'', []]]"
    by (simp add: save_admin_started_oversize)
  have p: "required_present alice"
    by (rule valid_required_present [OF valid_alice])
  have s: "find_email (DictReader [header_row, [''alice'', ''a@x.com'', long_text, ''admin'', []]])
      (dict_get alice ''email'') = Inl csv_Error"
    by (simp add: DictReader_oversize)
  have 2: "fst (save_admin ''/app'' (snd (save_admin ''/app'' started (Object oversize))) (Object alice)) =
     (Failure csv_Error, 500)"
    by (simp add: save_admin_scan_raises [OF p f s])
  have e: "alice ''email'' = Some (JStr ''a@x.com'')"
    by (simp add: alice_def)
  have f0: "files (snd (save_admin ''/app'' started (Object alice))) (csv_file_path ''/app'') =
     Some [header_row, [''alice'', ''a@x.com'', ''p'', ''admin'', []]]"
    by (simp add: save_admin_started_alice)
  from f0 1 f p e 2 show ?thesis
    by (simp add: emails_one_row)
qed

section \<open>What is persisted\<close>

lemma dict_get_restrict:
  "k \<in> S \<Longrightarrow> dict_get (data |` S) k = dict_get data k"
  by (simp add: dict_get_def)

lemma dict_get_default_restrict:
  "k \<in> S \<Longrightarrow> dict_get_default (data |` S) k d = dict_get_default data k d"
  by (simp add: dict_get_default_def)

lemma save_admin_restrict:
  "save_admin B w (Object (data |` set header_row)) = save_admin B w (Object data)"
proof -
  have "''username'' \<in> set header_row" "''email'' \<in> set header_row"
    "''password'' \<in> set header_row" "''role'' \<in> set header_row" "''created'' \<in> set header_row"
    by (simp_all add: header_row_def)
  then show ?thesis
    unfolding save_admin_def
    by (simp only: request_json.case dict_get_restrict dict_get_default_restrict)
qed

lemma save_admin_files:
  "files (snd (save_admin B w (Object data))) =
     (case files w (csv_file_path B) of
        None \<Rightarrow> files w
      | Some rows \<Rightarrow>
          if snd (fst (save_admin B w (Object data))) = 200
          then (files w)(csv_file_path B \<mapsto> rows @ [new_row data])
          else files w)"
proof (cases "required_present data")
  case False
  then show ?thesis
    by (simp add: save_admin_rejected split: option.splits)
next
  case True
  note rp = this
  show ?thesis
  proof (cases "files w (csv_file_path B)")
    case None
    with rp show ?thesis by (simp add: save_admin_missing_file)
  next
    case (Some rows)
    show ?thesis
    proof (cases "find_email (DictReader rows) (dict_get data ''email'')")
      case (Inl e)
      with rp Some show ?thesis by (simp add: save_admin_scan_raises)
    next
      case (Inr found)
      with rp Some show ?thesis
        by (cases found; cases "writable data")
          (simp_all add: save_admin_conflict save_admin_saved save_admin_write_raises)
    qed
  qed
qed

lemma DictReader_row_new_row:
  "DictReader_row header_row (new_row data) = zip (map Some header_row) (map Str (new_row data))"
  by (simp add: new_row_def DictReader_row_header) (simp add: header_row_def)

text \<open>
  C9.  \<open>save_admin\<close> does with a request exactly what it does with the request cut
  down to the keys username, email, password, role and created: every other key is
  discarded.  When it answers with status 200 the file has gained one row, and otherwise
  no file has changed; the row has five fields, the text of those five values, it is the
  same for the cut-down request, and it is read back as a record with those five keys
  and no other.
\<close>

theorem save_admin_persists_five_fields:
  "save_admin B w (Object data) = save_admin B w (Object (data |` {''username'', ''email'', ''password'', ''role'', ''created''})) \<and>
   files (snd (save_admin B w (Object data))) =
     (case files w (csv_file_path B) of
        None \<Rightarrow> files w
      | Some rows \<Rightarrow>
          if snd (fst (save_admin B w (Object data))) = 200
          then (files w)(csv_file_path B \<mapsto> rows @ [new_row data])
          else files w) \<and>
   length (new_row data) = 5 \<and>
   new_row data = new_row (data |` {''username'', ''email'', ''password'', ''role'', ''created''}) \<and>
   DictReader_row header_row (new_row data) =
     [(Some ''username'', Str (csv_field (dict_get data ''username''))),
      (Some ''email'', Str (csv_field (dict_get data ''email''))),
      (Some ''password'', Str (csv_field (dict_get data ''password''))),
      (Some ''role'', Str (csv_field (dict_get data ''role''))),
      (Some ''created'', Str (csv_field (dict_get_default data ''created'' (JStr []))))]"
proof -
  have s: "{''username'', ''email'', ''password'', ''role'', ''created''} = set header_row"
    by (simp add: header_row_def)
  have 1: "save_admin B w (Object data) =
      save_admin B w (Object (data |` {''username'', ''email'', ''password'', ''role'', ''created''}))"
    by (simp only: s save_admin_restrict)
  have 2: "length (new_row data) = 5"
    by (simp add: new_row_def)
  have 3: "new_row data = new_row (data |` {''username'', ''email'', ''password'', ''role'', ''created''})"
    by (simp add: new_row_def dict_get_restrict dict_get_default_restrict)
  have 4: "DictReader_row header_row (new_row data) =
     [(Some ''username'', Str (csv_field (dict_get data ''username''))),
      (Some ''email'', Str (csv_field (dict_get data ''email''))),
      (Some ''password'', Str (csv_field (dict_get data ''password''))),
      (Some ''role'', Str (csv_field (dict_get data ''role''))),
      (Some ''created'', Str (csv_field (dict_get_default data ''created'' (JStr []))))]"
    by (simp add: new_row_def DictReader_row_header)
  from 1 2 3 4 save_admin_files [of B w data] show ?thesis
    by blast
qed

text \<open>
  An instance: alice submitted with one more key is stored and listed as alice is.
\<close>

theorem save_admin_persists_five_fields_witness:
  "save_admin ''/app'' started (Object (alice(''is_superuser'' \<mapsto> JBool True))) =
     save_admin ''/app'' started (Object alice) \<and>
   fst (load_admins ''/app'' (snd (save_admin ''/app'' started (Object (alice(''is_superuser'' \<mapsto> JBool True)))))) =
     (Admins [[(Some ''username'', Str ''alice''), (Some ''email'', Str ''a@x.com''),
               (Some ''password'', Str ''p''), (Some ''role'', Str ''admin''),
               (Some ''created'', Str [])]], 200)"
proof -
  let ?S = "{''username'', ''email'', ''password'', ''role'', ''created''}"
  have r: "(alice(''is_superuser'' \<mapsto> JBool True)) |` ?S = alice |` ?S"
    by (rule ext) (simp add: restrict_map_def)
  have "save_admin ''/app'' started (Object (alice(''is_superuser'' \<mapsto> JBool True))) =
        save_admin ''/app'' started (Object ((alice(''is_superuser'' \<mapsto> JBool True)) |` ?S))"
    using save_admin_persists_five_fields [of "''/app''" started "alice(''is_superuser'' \<mapsto> JBool True)"]
    by blast
  also have "\<dots> = save_admin ''/app'' started (Object alice)"
    by (simp only: r) (simp add: header_row_def save_admin_restrict [of "''/app''" started alice, symmetric])
  finally have eq: "save_admin ''/app'' started (Object (alice(''is_superuser'' \<mapsto> JBool True))) =
     save_admin ''/app'' started (Object alice)" .
  have f: "files (snd (save_admin ''/app'' started (Object alice))) (csv_file_path ''/app'') =
      Some [header_row, [''alice'', ''a@x.com'', ''p'', ''admin'', []]]"
    by (simp add: save_admin_started_alice)
  have "fst (load_admins ''/app'' (snd (save_admin ''/app'' started (Object alice)))) =
      (Admins (row_dicts [header_row, [''alice'', ''a@x.com'', ''p'', ''admin'', []]]), 200)"
    by (subst load_admins_file [OF f readable_header_row])
      (simp_all add: header_row_def readable_def field_size_limit_def)
  then show ?thesis
    by (simp only: eq) (simp add: row_dicts_def DictReader_row_header)
qed

section \<open>Appends in a row\<close>









section \<open>Reachable states\<close>

lemma startup_creates_header:
  assumes "files w0 (csv_file_path B) = None" and "startup FLASK_ENV B w0 = Inr w"
  shows "files w (csv_file_path B) = Some [header_row]"
  using assms
  by (auto simp: startup_def open_w_writerow_def split: sum.splits)

lemma save_admin_file_cases:
  assumes "files w (csv_file_path B) = Some rows"
  shows "files (snd (save_admin B w req)) (csv_file_path B) = Some rows \<or>
         (\<exists>data. req = Object data \<and> required_present data \<and>
          find_email (DictReader rows) (dict_get data ''email'') = Inr False \<and>
          files (snd (save_admin B w req)) (csv_file_path B) = Some (rows @ [new_row data]))"
proof (cases req)
  case (Raised e)
  with assms show ?thesis by (simp add: save_admin_raised)
next
  case (NotObject t)
  with assms show ?thesis by (simp add: save_admin_not_object)
next
  case (Object data)
  show ?thesis
  proof (cases "required_present data")
    case False
    with assms Object show ?thesis by (simp add: save_admin_rejected)
  next
    case True
    note rp = this
    show ?thesis
    proof (cases "find_email (DictReader rows) (dict_get data ''email'')")
      case (Inl e)
      with rp assms Object show ?thesis by (simp add: save_admin_scan_raises)
    next
      case (Inr found)
      with rp assms Object show ?thesis
        by (cases found; cases "writable data")
          (simp_all add: save_admin_conflict save_admin_saved save_admin_write_raises)
    qed
  qed
qed

lemma load_admins_files: "files (snd (load_admins B w)) = files w"
  by (simp add: load_admins_def open_r_def Let_def split: option.splits sum.splits)

lemma clear_csv_cache_file: "files (clear_csv_cache B w) (csv_file_path B) = Some [header_row]"
  by (simp add: clear_csv_cache_def open_w_writerow_def)

lemma length_new_row: "length (new_row data) = 5"
  by (simp add: new_row_def)

text \<open>
  In every reachable state the storage file exists, its first row is the header, and
  every other row has five fields.
\<close>

lemma reachable_header:
  "reachable B w \<Longrightarrow>
   \<exists>rest. files w (csv_file_path B) = Some (header_row # rest) \<and> (\<forall>r \<in> set rest. length r = 5)"
proof (induction rule: reachable.induct)
  case (start w0 FLASK_ENV w)
  then show ?case
    using startup_creates_header by fastforce
next
  case (append w req)
  then obtain rest where f: "files w (csv_file_path B) = Some (header_row # rest)"
    and l: "\<forall>r \<in> set rest. length r = 5"
    by blast
  from save_admin_file_cases [OF f, of req] show ?case
  proof
    assume "files (snd (save_admin B w req)) (csv_file_path B) = Some (header_row # rest)"
    with l show ?thesis by blast
  next
    assume "\<exists>data. req = Object data \<and> required_present data \<and>
      find_email (DictReader (header_row # rest)) (dict_get data ''email'') = Inr False \<and>
      files (snd (save_admin B w req)) (csv_file_path B) = Some ((header_row # rest) @ [new_row data])"
    then obtain data where "files (snd (save_admin B w req)) (csv_file_path B) =
        Some (header_row # (rest @ [new_row data]))"
      by auto
    moreover have "\<forall>r \<in> set (rest @ [new_row data]). length r = 5"
      using l by (simp add: length_new_row)
    ultimately show ?thesis by blast
  qed
next
  case (list w)
  then show ?case by (simp add: load_admins_files)
next
  case (exit_hook w)
  show ?case by (simp add: clear_csv_cache_file)
qed

lemma emails_append:
  "row \<noteq> [] \<Longrightarrow>
   emails ((fieldnames # rest) @ [row]) =
     emails (fieldnames # rest) @ [row_get (DictReader_row fieldnames row) ''email'']"
  by (simp add: emails_def row_dicts_def)

lemma row_get_new_row_email:
  "row_get (DictReader_row header_row (new_row data)) ''email'' =
     Some (Str (csv_field (dict_get data ''email'')))"
  by (simp add: new_row_def DictReader_row_header row_get_def)

text \<open>
  When every submitted email is a string, no two records of the storage file share an
  email, in any reachable state.
\<close>

lemma reachable_text_unique_emails:
  "reachable_text B w \<Longrightarrow>
   \<exists>rest. files w (csv_file_path B) = Some (header_row # rest) \<and>
          distinct (emails (header_row # rest))"
proof (induction rule: reachable_text.induct)
  case (start_text w0 FLASK_ENV w)
  then have "files w (csv_file_path B) = Some [header_row]"
    by (rule startup_creates_header)
  then show ?case
    by (simp add: emails_def row_dicts_def)
next
  case (append_text w data e)
  then obtain rest where f: "files w (csv_file_path B) = Some (header_row # rest)"
    and d: "distinct (emails (header_row # rest))"
    by blast
  have e: "dict_get data ''email'' = JStr e"
    using append_text.hyps(2) by (simp add: dict_get_def)
  from save_admin_file_cases [OF f, of "Object data"] show ?case
  proof
    assume "files (snd (save_admin B w (Object data))) (csv_file_path B) = Some (header_row # rest)"
    with d show ?thesis by blast
  next
    assume "\<exists>data'. Object data = Object data' \<and> required_present data' \<and>
      find_email (DictReader (header_row # rest)) (dict_get data' ''email'') = Inr False \<and>
      files (snd (save_admin B w (Object data))) (csv_file_path B) =
        Some ((header_row # rest) @ [new_row data'])"
    then have a: "find_email (DictReader (header_row # rest)) (dict_get data ''email'') = Inr False \<and>
      files (snd (save_admin B w (Object data))) (csv_file_path B) =
        Some ((header_row # rest) @ [new_row data])"
      by auto
    then have "find_email (DictReader (header_row # rest)) (JStr e) = Inr False"
      by (simp add: e)
    then have fresh: "Some (Str e) \<notin> set (emails (header_row # rest))"
      by (simp add: find_email_False)
    have "new_row data \<noteq> []"
      by (simp add: new_row_def)
    then have "emails ((header_row # rest) @ [new_row data]) =
        emails (header_row # rest) @ [Some (Str e)]"
      using emails_append [of "new_row data" header_row rest]
      by (simp add: row_get_new_row_email e)
    with d fresh have "distinct (emails (header_row # (rest @ [new_row data])))"
      by simp
    moreover from a have "files (snd (save_admin B w (Object data))) (csv_file_path B) =
        Some (header_row # (rest @ [new_row data]))"
      by simp
    ultimately show ?thesis by blast
  qed
next
  case (list_text w)
  then show ?case by (simp add: load_admins_files)
next
  case (exit_hook_text w)
  have "files (clear_csv_cache B w) (csv_file_path B) = Some [header_row]"
    by (rule clear_csv_cache_file)
  then show ?case
    by (simp add: emails_def row_dicts_def)
qed

section \<open>Emails that are not strings\<close>

lemma str_int_5: "str_int 5 = ''5''"
  by (simp add: str_int_def str_nat.simps)

lemma required_present_numeric: "required_present numeric"
  by (simp add: required_present_def numeric_def dict_get_def)

lemma new_row_numeric: "new_row numeric = [''n'', ''5'', ''p'', ''admin'', []]"
  by (simp add: new_row_def numeric_def dict_get_def dict_get_default_def str_int_5)

lemma writable_numeric: "writable numeric"
  by (simp add: writable_def numeric_def dict_get_def dict_get_default_def)

lemma readable_numeric: "readable [''n'', ''5'', ''p'', ''admin'', []]"
  by (simp add: readable_def field_size_limit_def)

lemma dict_get_numeric_email: "dict_get numeric ''email'' = JInt 5"
  by (simp add: numeric_def dict_get_def)

lemma reachable_started: "reachable ''/app'' started"
proof (rule reachable.start)
  show "files no_files (csv_file_path ''/app'') = None"
    by (simp add: no_files_def)
  show "startup None ''/app'' no_files = Inr started"
    by (rule startup_started)
qed

text \<open>
  C5 fails on the code.  After the first start, the request whose email is the number 5
  is submitted twice.  Both calls succeed, because the number never equals the text
  \<open>5\<close> that the file holds, and the file, in a reachable state, then has two records
  with the email \<open>5\<close>.
\<close>

theorem duplicate_email_after_numeric_submissions:
  "startup None ''/app'' no_files = Inr started \<and>
   fst (save_admin ''/app'' started (Object numeric)) = (Message True ''Admin saved successfully'', 200) \<and>
   fst (save_admin ''/app'' (snd (save_admin ''/app'' started (Object numeric))) (Object numeric)) =
     (Message True ''Admin saved successfully'', 200) \<and>
   reachable ''/app'' (snd (save_admin ''/app'' (snd (save_admin ''/app'' started (Object numeric))) (Object numeric))) \<and>
   files (snd (save_admin ''/app'' (snd (save_admin ''/app'' started (Object numeric))) (Object numeric)))
       (csv_file_path ''/app'') =
     Some [header_row, [''n'', ''5'', ''p'', ''admin'', []], [''n'', ''5'', ''p'', ''admin'', []]] \<and>
   emails [header_row, [''n'', ''5'', ''p'', ''admin'', []], [''n'', ''5'', ''p'', ''admin'', []]] =
     [Some (Str ''5''), Some (Str ''5'')] \<and>
   fst (load_admins ''/app''
         (snd (save_admin ''/app'' (snd (save_admin ''/app'' started (Object numeric))) (Object numeric)))) =
     (Admins
        [[(Some ''username'', Str ''n''), (Some ''email'', Str ''5''),
          (Some ''password'', Str ''p''), (Some ''role'', Str ''admin''),
          (Some ''created'', Str [])],
         [(Some ''username'', Str ''n''), (Some ''email'', Str ''5''),
          (Some ''password'', Str ''p''), (Some ''role'', Str ''admin''),
          (Some ''created'', Str [])]], 200)"
proof -
  have f0: "find_email (DictReader [header_row]) (dict_get numeric ''email'') = Inr False"
    by (simp add: DictReader_def readable_header_row)
  note s1 = save_admin_saved [OF required_present_numeric files_started f0 writable_numeric]
  let ?w1 = "snd (save_admin ''/app'' started (Object numeric))"
  have files1: "files ?w1 (csv_file_path ''/app'') = Some [header_row, [''n'', ''5'', ''p'', ''admin'', []]]"
    by (simp add: s1 new_row_numeric)
  have f1: "find_email (DictReader [header_row, [''n'', ''5'', ''p'', ''admin'', []]])
              (dict_get numeric ''email'') = Inr False"
    by (simp add: DictReader_def readable_header_row readable_numeric DictReader_row_header
        row_get_def dict_get_numeric_email)
  note s2 = save_admin_saved [OF required_present_numeric files1 f1 writable_numeric]
  let ?w2 = "snd (save_admin ''/app'' ?w1 (Object numeric))"
  have files2: "files ?w2 (csv_file_path ''/app'') =
      Some [header_row, [''n'', ''5'', ''p'', ''admin'', []], [''n'', ''5'', ''p'', ''admin'', []]]"
    by (simp add: s2 new_row_numeric)
  have l: "fst (load_admins ''/app'' ?w2) =
     (Admins
        [[(Some ''username'', Str ''n''), (Some ''email'', Str ''5''),
          (Some ''password'', Str ''p''), (Some ''role'', Str ''admin''),
          (Some ''created'', Str [])],
         [(Some ''username'', Str ''n''), (Some ''email'', Str ''5''),
          (Some ''password'', Str ''p''), (Some ''role'', Str ''admin''),
          (Some ''created'', Str [])]], 200)"
    by (subst load_admins_file [OF files2 readable_header_row])
      (simp_all add: readable_numeric row_dicts_def DictReader_row_header, simp add: header_row_def)
  have a1: "fst (save_admin ''/app'' started (Object numeric)) = (Message True ''Admin saved successfully'', 200)"
    by (simp add: s1)
  have a2: "fst (save_admin ''/app'' ?w1 (Object numeric)) = (Message True ''Admin saved successfully'', 200)"
    by (simp add: s2)
  have r: "reachable ''/app'' ?w2"
    by (intro reachable.append reachable_started)
  have e: "emails [header_row, [''n'', ''5'', ''p'', ''admin'', []], [''n'', ''5'', ''p'', ''admin'', []]] =
     [Some (Str ''5''), Some (Str ''5'')]"
    by (simp add: emails_def row_dicts_def DictReader_row_header row_get_def)
  from startup_started a1 a2 r files2 e l show ?thesis
    by blast
qed

text \<open>The two records that share an email, on their own.\<close>

theorem duplicate_email_after_numeric_submissions_witness:
  "reachable ''/app'' (snd (save_admin ''/app'' (snd (save_admin ''/app'' started (Object numeric))) (Object numeric))) \<and>
   files (snd (save_admin ''/app'' (snd (save_admin ''/app'' started (Object numeric))) (Object numeric)))
       (csv_file_path ''/app'') =
     Some [header_row, [''n'', ''5'', ''p'', ''admin'', []], [''n'', ''5'', ''p'', ''admin'', []]] \<and>
   emails [header_row, [''n'', ''5'', ''p'', ''admin'', []], [''n'', ''5'', ''p'', ''admin'', []]] =
     [Some (Str ''5''), Some (Str ''5'')]"
  using duplicate_email_after_numeric_submissions by blast

section \<open>The testing profile\<close>

lemma startup_testing: "startup (Some ''testing'') ''/app'' no_files = Inr started"
  by (simp add: startup_def app_config_def env_def getenv_def config_def started_def no_files_def)

text \<open>
  C2 fails on the code.  The testing profile is selected and names
  \<open>src/models/data/test_users.csv\<close> as its storage file, but the handlers take the
  path from \<open>csv_file_path\<close>, which is \<open>users.csv\<close> under the data directory
  whatever the profile: the start under the testing profile creates that file, appending
  alice adds her row to it, listing reads it, and no file exists at the path of the
  testing profile.
\<close>

theorem testing_profile_uses_users_csv:
  "app_config (Some ''testing'') = Inr TestingConfig \<and>
   CSV_FILE_PATH TestingConfig = ''src/models/data/test_users.csv'' \<and>
   CSV_FILE_PATH DevelopmentConfig = ''src/models/data/users.csv'' \<and>
   csv_file_path ''/app'' = ''/app/src/models/data/users.csv'' \<and>
   startup (Some ''testing'') ''/app'' no_files = Inr started \<and>
   startup (Some ''development'') ''/app'' no_files = Inr started \<and>
   files started ''/app/src/models/data/users.csv'' = Some [header_row] \<and>
   files (snd (save_admin ''/app'' started (Object alice))) ''/app/src/models/data/users.csv'' =
     Some [header_row, [''alice'', ''a@x.com'', ''p'', ''admin'', []]] \<and>
   files (snd (save_admin ''/app'' started (Object alice))) ''/app/src/models/data/test_users.csv'' = None \<and>
   io_log (snd (load_admins ''/app'' (snd (save_admin ''/app'' started (Object alice))))) =
     [Open ''/app/src/models/data/users.csv'' ''w'',
      Open ''/app/src/models/data/users.csv'' ''r'',
      Open ''/app/src/models/data/users.csv'' ''a'',
      Open ''/app/src/models/data/users.csv'' ''r'']"
proof -
  have 1: "app_config (Some ''testing'') = Inr TestingConfig"
    by (simp add: app_config_def env_def getenv_def config_def)
  have 2: "CSV_FILE_PATH TestingConfig = ''src/models/data/test_users.csv''"
    by (simp add: TestingConfig_def Config_def)
  have 3: "CSV_FILE_PATH DevelopmentConfig = ''src/models/data/users.csv''"
    by (simp add: DevelopmentConfig_def Config_def)
  have 4: "startup (Some ''development'') ''/app'' no_files = Inr started"
    by (simp add: startup_def app_config_def env_def getenv_def config_def started_def no_files_def)
  have 5: "files started ''/app/src/models/data/users.csv'' = Some [header_row]"
    using files_started by (simp only: csv_file_path_app)
  have 6: "files (snd (save_admin ''/app'' started (Object alice))) ''/app/src/models/data/users.csv'' =
     Some [header_row, [''alice'', ''a@x.com'', ''p'', ''admin'', []]]"
    by (simp add: save_admin_started_alice csv_file_path_app)
  have 7: "files (snd (save_admin ''/app'' started (Object alice))) ''/app/src/models/data/test_users.csv'' = None"
    by (simp add: save_admin_started_alice csv_file_path_app)
       (simp add: started_def open_w_writerow_def no_files_def csv_file_path_app)
  have f: "files (snd (save_admin ''/app'' started (Object alice))) (csv_file_path ''/app'') =
     Some [header_row, [''alice'', ''a@x.com'', ''p'', ''admin'', []]]"
    by (simp add: save_admin_started_alice)
  have 8: "io_log (snd (load_admins ''/app'' (snd (save_admin ''/app'' started (Object alice))))) =
     [Open ''/app/src/models/data/users.csv'' ''w'',
      Open ''/app/src/models/data/users.csv'' ''r'',
      Open ''/app/src/models/data/users.csv'' ''a'',
      Open ''/app/src/models/data/users.csv'' ''r'']"
    by (subst load_admins_file [OF f readable_header_row])
      (simp_all add: header_row_def readable_def field_size_limit_def,
        simp add: save_admin_started_alice,
        simp add: csv_file_path_app started_def open_w_writerow_def no_files_def)
  from 1 2 3 csv_file_path_app startup_testing 4 5 6 7 8 show ?thesis
    by blast
qed

text \<open>The part of the above that the handlers decide, on its own.\<close>

theorem testing_profile_uses_users_csv_witness:
  "app_config (Some ''testing'') = Inr TestingConfig \<and>
   startup (Some ''testing'') ''/app'' no_files = Inr started \<and>
   files (snd (save_admin ''/app'' started (Object alice))) ''/app/src/models/data/users.csv'' =
     Some [header_row, [''alice'', ''a@x.com'', ''p'', ''admin'', []]] \<and>
   files (snd (save_admin ''/app'' started (Object alice))) ''/app/src/models/data/test_users.csv'' = None"
  using testing_profile_uses_users_csv by blast

end
